theory Spec2Isabelle
  imports Complex_Main "HOL-Library.Multiset" "HOL-Library.Sublist"
begin

section \<open>Structure-factor twist averaging (analyse\_cc4s.py)\<close>

text \<open>
  A shallow embedding of \<^verbatim>\<open>analyse_cc4s.py\<close>. The script reads, for every run, three
  files of numbers with \<^verbatim>\<open>np.loadtxt\<close>, builds one table per run, averages the tables
  grouped by the rounded magnitude of the grid vectors and selects the run whose
  structure factor is closest to the average.

  Conventions of the model.
  \<^item> A 64-bit float is a \<^typ>\<open>real\<close>: arithmetic is exact, and a value is never NaN or
    infinite. The only NaN the model keeps is the one pandas produces for the standard
    error of a group of one row; a column that may hold it has type \<^typ>\<open>real option\<close>,
    with \<^term>\<open>None\<close> for NaN.
  \<^item> The file system is outside the model: a file is represented by the array that
    \<^verbatim>\<open>np.loadtxt\<close> returns for it, with its shape.
  \<^item> Every \<^verbatim>\<open>raise\<close> of the script and of the library calls it makes is a value
    \<open>Inl e\<close> of a sum type.
\<close>

subsection \<open>Arrays and errors\<close>

text \<open>
  What \<^verbatim>\<open>np.loadtxt(file, dtype=np.float64)\<close> returns: a file of one number gives a
  0-dimensional array, a file of one row or of one column (and the empty file) a
  1-dimensional array, a file of several rows of several numbers a 2-dimensional array
  (the list of its rows).
\<close>

datatype ndarray = Arr0 real | Arr1 "real list" | Arr2 "real list list"

text \<open>
  The exceptions, one constructor per place that raises:
  \<^item> \<open>IndexError_shape\<close>: \<^verbatim>\<open>shape[0]\<close> of a 0-dimensional array (its shape is the empty tuple);
  \<^item> \<open>ValueError_reshape\<close>: \<^verbatim>\<open>reshape\<close> to a shape of another size;
  \<^item> \<open>ValueError_ndim\<close>: \<^verbatim>\<open>pd.DataFrame\<close> given a 2-dimensional array as a column;
  \<^item> \<open>ValueError_lengths\<close>: \<^verbatim>\<open>pd.DataFrame\<close> given arrays of different lengths;
  \<^item> \<open>ValueError_concat\<close>: \<^verbatim>\<open>pd.concat\<close> of no table;
  \<^item> \<open>ValueError_G_arrays\<close>: the script's own \<^verbatim>\<open>raise ValueError('G value arrays are not equivlent ...')\<close>;
  \<^item> \<open>ValueError_argmin\<close>: \<^verbatim>\<open>np.argmin\<close> of an empty sequence.
\<close>

datatype error =
    IndexError_shape
  | ValueError_reshape
  | ValueError_ndim
  | ValueError_lengths
  | ValueError_concat
  | ValueError_G_arrays
  | ValueError_argmin

fun flat :: "ndarray \<Rightarrow> real list" where
  "flat (Arr0 x) = [x]"
| "flat (Arr1 xs) = xs"
| "flat (Arr2 rows) = concat rows"

definition array_size :: "ndarray \<Rightarrow> nat" where
  "array_size a = length (flat a)"

fun shape0 :: "ndarray \<Rightarrow> error + nat" where
  "shape0 (Arr0 x) = Inl IndexError_shape"
| "shape0 (Arr1 xs) = Inr (length xs)"
| "shape0 (Arr2 rows) = Inr (length rows)"

text \<open>The rows of \<^verbatim>\<open>a.reshape((n, 3))\<close>, for an array of \<open>3 * n\<close> elements in row-major order.\<close>

fun rows3 :: "real list \<Rightarrow> (real \<times> real \<times> real) list" where
  "rows3 (x # y # z # rest) = (x, y, z) # rows3 rest"
| "rows3 _ = []"

definition reshape_3 :: "ndarray \<Rightarrow> nat \<Rightarrow> error + (real \<times> real \<times> real) list" where
  "reshape_3 a n =
     (if array_size a = n * 3 then Inr (rows3 (flat a)) else Inl ValueError_reshape)"

subsection \<open>GridReader: \<^verbatim>\<open>read_and_generate_Gvector_magnitudes\<close>\<close>

text \<open>
  \<^verbatim>\<open>
  raw_g_xyz = np.loadtxt(Gvector_file, dtype=np.float64)
  N_G = int(raw_g_xyz.shape[0] / 3)
  g_xyz = raw_g_xyz.reshape((N_G, 3))
  G = np.sqrt(np.einsum('ij,ij->i', g_xyz, g_xyz))
  \<close>
  The argument of the model is the array returned by \<^verbatim>\<open>np.loadtxt\<close>. The quotient
  \<^verbatim>\<open>int(n / 3)\<close> of a length is \<open>n div 3\<close>.
\<close>

definition magnitude :: "real \<times> real \<times> real \<Rightarrow> real" where
  "magnitude v = (case v of (x, y, z) \<Rightarrow> sqrt (x * x + y * y + z * z))"

definition read_and_generate_Gvector_magnitudes :: "ndarray \<Rightarrow> error + real list" where
  "read_and_generate_Gvector_magnitudes raw_g_xyz =
     (case shape0 raw_g_xyz of
        Inl e \<Rightarrow> Inl e
      | Inr n \<Rightarrow>
          (let N_G = n div 3 in
           case reshape_3 raw_g_xyz N_G of
             Inl e \<Rightarrow> Inl e
           | Inr g_xyz \<Rightarrow> Inr (map magnitude g_xyz)))"

subsection \<open>RunLoader: the loop of \<^verbatim>\<open>read_and_average_SF\<close>\<close>

text \<open>
  \<^verbatim>\<open>G.round(10)\<close> rounds to ten decimals: the value is scaled by \<open>10^10\<close>, rounded to
  the nearest integer with ties to the even one, and scaled back.
\<close>

definition rint :: "real \<Rightarrow> int" where
  "rint x =
     (let f = \<lfloor>x\<rfloor>; d = x - of_int f in
      if d < 1 / 2 then f else if 1 / 2 < d then f + 1
      else if even f then f else f + 1)"

definition round10 :: "real \<Rightarrow> real" where
  "round10 x = of_int (rint (x * 10 ^ 10)) / 10 ^ 10"

text \<open>One row of a run's table \<^verbatim>\<open>SFi\<close>, with the columns \<^verbatim>\<open>G\<close>, \<^verbatim>\<open>V_G\<close>, \<^verbatim>\<open>S_G\<close>.\<close>

record GridPoint =
  G :: real
  V_G :: real
  S_G :: real

type_synonym DataFrame = "GridPoint list"

text \<open>
  \<^verbatim>\<open>pd.DataFrame({'G': G.round(10), 'V_G': V_G, 'S_G': S_G})\<close>. The constructor refuses a
  2-dimensional array as a column, takes a 0-dimensional array as a scalar, which it
  repeats on every row, and refuses 1-dimensional arrays of different lengths. The
  column \<^verbatim>\<open>G\<close> is always 1-dimensional (it comes out of \<^verbatim>\<open>np.sqrt(np.einsum(...))\<close>),
  so its length is the number of rows.
\<close>

fun ndim2 :: "ndarray \<Rightarrow> bool" where
  "ndim2 (Arr2 rows) = True"
| "ndim2 _ = False"

fun fits :: "nat \<Rightarrow> ndarray \<Rightarrow> bool" where
  "fits n (Arr1 xs) = (length xs = n)"
| "fits n _ = True"

fun column :: "nat \<Rightarrow> ndarray \<Rightarrow> real list" where
  "column n (Arr0 x) = replicate n x"
| "column n a = flat a"

definition new_DataFrame :: "real list \<Rightarrow> ndarray \<Rightarrow> ndarray \<Rightarrow> error + DataFrame" where
  "new_DataFrame g v s =
     (if ndim2 v \<or> ndim2 s then Inl ValueError_ndim
      else if \<not> fits (length g) v \<or> \<not> fits (length g) s then Inl ValueError_lengths
      else Inr (map (\<lambda>(a, b, c). \<lparr>G = a, V_G = b, S_G = c\<rparr>)
                  (zip g (zip (column (length g) v) (column (length g) s)))))"

text \<open>
  The body of the loop, for the three arrays loaded from one directory.
  \<^verbatim>\<open>read_Vg\<close> and \<^verbatim>\<open>read_Sg\<close> only call \<^verbatim>\<open>np.loadtxt\<close>: they are the arrays \<open>v\<close> and \<open>s\<close>.
\<close>

definition load_run :: "ndarray \<times> ndarray \<times> ndarray \<Rightarrow> error + DataFrame" where
  "load_run files =
     (case files of (g, v, s) \<Rightarrow>
        (case read_and_generate_Gvector_magnitudes g of
           Inl e \<Rightarrow> Inl e
         | Inr mags \<Rightarrow> new_DataFrame (map round10 mags) v s))"

fun load_runs :: "(ndarray \<times> ndarray \<times> ndarray) list \<Rightarrow> error + DataFrame list" where
  "load_runs [] = Inr []"
| "load_runs (files # rest) =
     (case load_run files of
        Inl e \<Rightarrow> Inl e
      | Inr SFi \<Rightarrow> (case load_runs rest of Inl e \<Rightarrow> Inl e | Inr raw_SF \<Rightarrow> Inr (SFi # raw_SF)))"

subsection \<open>Averager: the grouping of \<^verbatim>\<open>read_and_average_SF\<close>\<close>

text \<open>
  \<^verbatim>\<open>df.groupby('G', as_index=False)\<close>: one group per distinct value of the column \<^verbatim>\<open>G\<close>,
  the groups in ascending order of that value, the rows of a group in the order of the
  table.
\<close>

definition groupby_G :: "DataFrame \<Rightarrow> (real \<times> DataFrame) list" where
  "groupby_G df = map (\<lambda>k. (k, filter (\<lambda>r. G r = k) df)) (sort (remdups (map G df)))"

definition mean :: "real list \<Rightarrow> real" where
  "mean xs = sum_list xs / real (length xs)"

text \<open>
  The standard error of the mean, as pandas computes it: the sample standard deviation
  (\<^verbatim>\<open>ddof=1\<close>) over the square root of the count; NaN for a group of one row.
\<close>

definition sem :: "real list \<Rightarrow> real option" where
  "sem xs =
     (let n = length xs in
      if n \<le> 1 then None
      else Some (sqrt ((\<Sum>x\<leftarrow>xs. (x - mean xs) ^ 2) / real (n - 1)) / sqrt (real n)))"

text \<open>
  \<^verbatim>\<open>group.mean()\<close> and \<^verbatim>\<open>group.sem()\<close>. With \<^verbatim>\<open>as_index=False\<close> the result has the
  grouping column \<^verbatim>\<open>G\<close> as its first column, holding the key of each group; the
  aggregate is computed for the other columns only.
\<close>

definition groupby_mean :: "DataFrame \<Rightarrow> DataFrame" where
  "groupby_mean df =
     map (\<lambda>(k, rows). \<lparr>G = k, V_G = mean (map V_G rows), S_G = mean (map S_G rows)\<rparr>)
       (groupby_G df)"

definition groupby_sem :: "DataFrame \<Rightarrow> (real \<times> real option \<times> real option) list" where
  "groupby_sem df =
     map (\<lambda>(k, rows). (k, sem (map V_G rows), sem (map S_G rows))) (groupby_G df)"

text \<open>One row of the average table \<^verbatim>\<open>SF\<close>: the three columns and the three error columns.\<close>

record AverageRow = GridPoint +
  G_error :: "real option"
  V_G_error :: "real option"
  S_G_error :: "real option"

text \<open>
  \<^verbatim>\<open>
  group = pd.concat(raw_SF).groupby('G', as_index=False)
  SF = group.mean()
  SF[['G_error', 'V_G_error', 'S_G_error']] = group.sem()[['G', 'V_G', 'S_G']]
  \<close>
  The column \<^verbatim>\<open>G\<close> of \<^verbatim>\<open>group.sem()\<close> is the column of the keys, and it is what the
  assignment stores in \<^verbatim>\<open>G_error\<close>.
\<close>

definition average_SF :: "DataFrame list \<Rightarrow> AverageRow list" where
  "average_SF raw_SF =
     (let df = concat raw_SF in
      map (\<lambda>(m, (g, v, s)).
             \<lparr>G = G m, V_G = V_G m, S_G = S_G m,
              G_error = Some g, V_G_error = v, S_G_error = s\<rparr>)
        (zip (groupby_mean df) (groupby_sem df)))"

definition read_and_average_SF ::
  "(ndarray \<times> ndarray \<times> ndarray) list \<Rightarrow> error + (DataFrame list \<times> AverageRow list)" where
  "read_and_average_SF files =
     (case load_runs files of
        Inl e \<Rightarrow> Inl e
      | Inr raw_SF \<Rightarrow>
          if raw_SF = [] then Inl ValueError_concat else Inr (raw_SF, average_SF raw_SF))"

subsection \<open>ResidualSelector: \<^verbatim>\<open>find_special_twist_angle\<close>\<close>

text \<open>
  \<^verbatim>\<open>np.power(np.abs(SF['S_G'] - aSFi['S_G']), 2).sum()\<close>. Both columns are indexed
  \<open>0, 1, ...\<close>; the difference is taken where both have a row, it is NaN where only one
  has, and the sum of a pandas column skips NaN.
\<close>

definition residual :: "real list \<Rightarrow> real list \<Rightarrow> real" where
  "residual avg run = (\<Sum>(a, b)\<leftarrow>zip avg run. \<bar>a - b\<bar> ^ 2)"

text \<open>
  The loop: a residual is appended for each run, and the first run whose grouped column
  \<^verbatim>\<open>G\<close> is not equal to the column \<^verbatim>\<open>G\<close> of the average (\<^verbatim>\<open>np.array_equal\<close>: same
  length, same elements) raises.
\<close>

fun residuals :: "DataFrame list \<Rightarrow> AverageRow list \<Rightarrow> error + real list" where
  "residuals [] SF = Inr []"
| "residuals (SFi # rest) SF =
     (let aSFi = groupby_mean SFi;
          r = residual (map S_G SF) (map S_G aSFi)
      in if map G aSFi \<noteq> map G SF then Inl ValueError_G_arrays
         else (case residuals rest SF of Inl e \<Rightarrow> Inl e | Inr rs \<Rightarrow> Inr (r # rs)))"

text \<open>
  \<^verbatim>\<open>np.argmin\<close>: a scan that keeps the index of the smallest value seen and replaces it
  only by a strictly smaller one. \<open>argmin_scan bi bv i xs\<close> continues at index \<open>i\<close> with
  the best index \<open>bi\<close> and its value \<open>bv\<close>.
\<close>

fun argmin_scan :: "nat \<Rightarrow> real \<Rightarrow> nat \<Rightarrow> real list \<Rightarrow> nat" where
  "argmin_scan bi bv i [] = bi"
| "argmin_scan bi bv i (x # xs) =
     (if x < bv then argmin_scan i x (Suc i) xs else argmin_scan bi bv (Suc i) xs)"

definition argmin :: "real list \<Rightarrow> error + nat" where
  "argmin xs =
     (case xs of [] \<Rightarrow> Inl ValueError_argmin | x # rest \<Rightarrow> Inr (argmin_scan 0 x 1 rest))"

definition find_special_twist_angle :: "DataFrame list \<Rightarrow> AverageRow list \<Rightarrow> error + nat" where
  "find_special_twist_angle raw_SF SF =
     (case residuals raw_SF SF of Inl e \<Rightarrow> Inl e | Inr rs \<Rightarrow> argmin rs)"

subsection \<open>Exporter: the file name of \<^verbatim>\<open>write_sfTA_csv\<close>\<close>

text \<open>Python's \<^verbatim>\<open>sub in s\<close> on strings: \<open>sub\<close> occurs in \<open>s\<close> as a contiguous block.\<close>

fun contains :: "string \<Rightarrow> string \<Rightarrow> bool" where
  "contains sub [] = (sub = [])"
| "contains sub (c # cs) = (prefix sub (c # cs) \<or> contains sub cs)"

text \<open>
  \<^verbatim>\<open>
  if '.csv' not in csv_file:
      csv_file += '.csv'
  \<close>
  The name of the main output file, which \<^verbatim>\<open>to_csv\<close> then writes.
\<close>

definition write_sfTA_csv_file :: "string \<Rightarrow> string" where
  "write_sfTA_csv_file csv_file =
     (if \<not> contains ''.csv'' csv_file then csv_file @ ''.csv'' else csv_file)"

subsection \<open>The pipeline: \<^verbatim>\<open>main\<close>\<close>

text \<open>
  The directories are represented by the arrays loaded from their three files; the
  result is the index of the directory that \<^verbatim>\<open>main\<close> prints.
\<close>

definition main :: "(ndarray \<times> ndarray \<times> ndarray) list \<Rightarrow> error + nat" where
  "main directories =
     (case read_and_average_SF directories of
        Inl e \<Rightarrow> Inl e
      | Inr (raw_SF, SF) \<Rightarrow> find_special_twist_angle raw_SF SF)"

subsection \<open>The residual as the specification words it\<close>

text \<open>
  The specification's residual of a run against the average table:
  \<open>\<Sum>\<^sub>G (structure_factor_avg(G) - structure_factor_run(G))\<^sup>2\<close>, the sum over the
  magnitudes of the average table, where \<open>structure_factor_run(G)\<close> is the mean structure
  factor of the run's own rows of magnitude \<open>G\<close>. These two definitions follow the
  specification, not the script; the theorems below compare them with
  \<^verbatim>\<open>find_special_twist_angle\<close>.
\<close>

definition structure_factor_run :: "DataFrame \<Rightarrow> real \<Rightarrow> real" where
  "structure_factor_run SFi g = mean (map S_G (filter (\<lambda>r. G r = g) SFi))"

definition Residual :: "AverageRow list \<Rightarrow> DataFrame \<Rightarrow> real" where
  "Residual SF SFi = (\<Sum>row\<leftarrow>SF. (S_G row - structure_factor_run SFi (G row))\<^sup>2)"

subsection \<open>Predicates and inputs used in the statements\<close>

text \<open>A file of exactly one number is loaded as a 0-dimensional array.\<close>

fun ndim0 :: "ndarray \<Rightarrow> bool" where
  "ndim0 (Arr0 x) = True"
| "ndim0 _ = False"

text \<open>Two loaded arrays have the same shape.\<close>

fun same_shape :: "ndarray \<Rightarrow> ndarray \<Rightarrow> bool" where
  "same_shape (Arr0 x) (Arr0 y) = True"
| "same_shape (Arr1 xs) (Arr1 ys) = (length xs = length ys)"
| "same_shape (Arr2 rows) (Arr2 rows') = (map length rows = map length rows')"
| "same_shape _ _ = False"

text \<open>
  Two runs agree on the grid file and on the structure-factor file, and their
  potential files have the same shape (their values may differ).
\<close>

definition same_G_S ::
  "ndarray \<times> ndarray \<times> ndarray \<Rightarrow> ndarray \<times> ndarray \<times> ndarray \<Rightarrow> bool" where
  "same_G_S run run' =
     (case (run, run') of ((g, v, s), (g', v', s')) \<Rightarrow> g = g' \<and> s = s' \<and> same_shape v v')"

text \<open>The columns \<^verbatim>\<open>G\<close> and \<^verbatim>\<open>S_G\<close> of a table, row by row.\<close>

definition G_S_G :: "DataFrame \<Rightarrow> (real \<times> real) list" where
  "G_S_G df = map (\<lambda>r. (G r, S_G r)) df"

text \<open>
  Three runs on the magnitudes 1 and 2; the first and the third have the same
  structure factors. A fourth run on a finer grid.
\<close>

definition three_runs :: "DataFrame list" where
  "three_runs =
     [[\<lparr>G = 1, V_G = 5, S_G = 10\<rparr>, \<lparr>G = 2, V_G = 6, S_G = 20\<rparr>],
      [\<lparr>G = 1, V_G = 5, S_G = 40\<rparr>, \<lparr>G = 2, V_G = 6, S_G = 80\<rparr>],
      [\<lparr>G = 1, V_G = 5, S_G = 10\<rparr>, \<lparr>G = 2, V_G = 6, S_G = 20\<rparr>]]"

definition finer_run :: DataFrame where
  "finer_run =
     [\<lparr>G = 1, V_G = 5, S_G = 10\<rparr>, \<lparr>G = 3 / 2, V_G = 5, S_G = 15\<rparr>,
      \<lparr>G = 2, V_G = 6, S_G = 20\<rparr>]"

text \<open>
  Two runs on the magnitudes 1 and 2, and the same rows in another order.
\<close>

definition two_runs :: "DataFrame list" where
  "two_runs =
     [[\<lparr>G = 1, V_G = 5, S_G = 10\<rparr>, \<lparr>G = 2, V_G = 6, S_G = 20\<rparr>],
      [\<lparr>G = 1, V_G = 7, S_G = 30\<rparr>, \<lparr>G = 2, V_G = 8, S_G = 40\<rparr>]]"


text \<open>
  The loaded files of a directory with the grid vectors \<open>(1,0,0)\<close> and \<open>(0,2,0)\<close>, one
  number per line, for given potential and structure-factor arrays.
\<close>

definition directory :: "ndarray \<Rightarrow> ndarray \<Rightarrow> ndarray \<times> ndarray \<times> ndarray" where
  "directory v s = (Arr1 [1, 0, 0, 0, 2, 0], v, s)"

section \<open>Properties\<close>

subsection \<open>GridReader\<close>

lemma length_rows3: "length (rows3 xs) = length xs div 3"
  by (induction xs rule: rows3.induct) simp_all

lemma rows3_nth:
  "i < length xs div 3 \<Longrightarrow>
   rows3 xs ! i = (xs ! (3 * i), xs ! (3 * i + 1), xs ! (3 * i + 2))"
proof (induction xs arbitrary: i rule: rows3.induct)
  case (1 x y z rest)
  show ?case
  proof (cases i)
    case 0
    then show ?thesis by simp
  next
    case (Suc j)
    with "1.prems" have "j < length rest div 3" by simp
    from "1.IH" [OF this] Suc show ?thesis by simp
  qed
qed simp_all

lemma Gvector_magnitudes_flat:
  "length xs = 3 * N \<Longrightarrow>
   read_and_generate_Gvector_magnitudes (Arr1 xs) = Inr (map magnitude (rows3 xs))"
  by (simp add: read_and_generate_Gvector_magnitudes_def reshape_3_def array_size_def
      mult.commute)

text \<open>
  Claim C6, as amended. For every grid file whose \<open>3 * N\<close> numbers are loaded as a
  1-dimensional array (one number per line, as cc4s writes them, or all on one line),
  the reader returns exactly \<open>N\<close> magnitudes in file order, the \<open>i\<close>-th being
  \<open>sqrt (x\<^sup>2 + y\<^sup>2 + z\<^sup>2)\<close> of the \<open>i\<close>-th consecutive triple.
\<close>

theorem GridReader_flat_magnitudes:
  assumes "length xs = 3 * N"
  shows "\<exists>mags. read_and_generate_Gvector_magnitudes (Arr1 xs) = Inr mags \<and>
           length mags = N \<and>
           (\<forall>i<N. mags ! i =
              sqrt ((xs ! (3 * i))\<^sup>2 + (xs ! (3 * i + 1))\<^sup>2 + (xs ! (3 * i + 2))\<^sup>2))"
proof -
  have l: "length (map magnitude (rows3 xs)) = N"
    using assms by (simp add: length_rows3)
  have "map magnitude (rows3 xs) ! i =
        sqrt ((xs ! (3 * i))\<^sup>2 + (xs ! (3 * i + 1))\<^sup>2 + (xs ! (3 * i + 2))\<^sup>2)"
    if "i < N" for i
  proof -
    from that assms have "i < length xs div 3" by simp
    then show ?thesis
      by (simp add: length_rows3 rows3_nth magnitude_def power2_eq_square)
  qed
  with Gvector_magnitudes_flat [OF assms] l show ?thesis by blast
qed

text \<open>
  The example of the specification: the vectors \<open>(1,0,0)\<close>, \<open>(0,2,0)\<close>, \<open>(0,0,3)\<close>, one
  number per line, give the magnitudes \<open>[1, 2, 3]\<close>.
\<close>

theorem GridReader_flat_magnitudes_witness:
  "length [1, 0, 0, 0, 2, 0, 0, 0, 3 :: real] = 3 * 3 \<and>
   read_and_generate_Gvector_magnitudes (Arr1 [1, 0, 0, 0, 2, 0, 0, 0, 3]) = Inr [1, 2, 3]"
proof -
  have h: "length [1, 0, 0, 0, 2, 0, 0, 0, 3 :: real] = 3 * 3" by simp
  from GridReader_flat_magnitudes [OF h] obtain mags where
    m: "read_and_generate_Gvector_magnitudes (Arr1 [1, 0, 0, 0, 2, 0, 0, 0, 3]) = Inr mags"
    by blast
  have "read_and_generate_Gvector_magnitudes (Arr1 [1, 0, 0, 0, 2, 0, 0, 0, 3]) = Inr [1, 2, 3]"
    using real_sqrt_abs [of 2] real_sqrt_abs [of 3]
    by (simp add: read_and_generate_Gvector_magnitudes_def reshape_3_def array_size_def
        magnitude_def)
  with h m show ?thesis by simp
qed

text \<open>
  Claim C6 as stated fails: the same three vectors written one vector per line are a
  file of \<open>3 * 3\<close> numbers, which is loaded as a 2-dimensional array of three rows;
  \<^verbatim>\<open>shape[0]\<close> is then 3, \<^verbatim>\<open>N_G\<close> is 1, and reshaping nine numbers to one row of three
  raises.
\<close>

theorem GridReader_rows_of_three_counterexample:
  "array_size (Arr2 [[1, 0, 0], [0, 2, 0], [0, 0, 3]]) = 3 * 3 \<and>
   read_and_generate_Gvector_magnitudes (Arr2 [[1, 0, 0], [0, 2, 0], [0, 0, 3]])
     = Inl ValueError_reshape"
  by (simp add: read_and_generate_Gvector_magnitudes_def reshape_3_def array_size_def)

text \<open>
  Claim C7. For every grid file whose number of elements is not a multiple of 3, the
  reader fails (with the IndexError of \<^verbatim>\<open>shape[0]\<close> or the ValueError of \<^verbatim>\<open>reshape\<close>):
  no sequence of magnitudes is returned.
\<close>

theorem GridReader_not_multiple_of_3:
  assumes "\<not> 3 dvd array_size a"
  shows "read_and_generate_Gvector_magnitudes a = Inl IndexError_shape \<or>
         read_and_generate_Gvector_magnitudes a = Inl ValueError_reshape"
proof (cases "shape0 a")
  case (Inl e)
  then show ?thesis
    by (cases a) (simp_all add: read_and_generate_Gvector_magnitudes_def)
next
  case (Inr n)
  from assms have "array_size a \<noteq> n div 3 * 3" by (metis dvd_triv_right)
  with Inr show ?thesis
    by (simp add: read_and_generate_Gvector_magnitudes_def reshape_3_def)
qed

theorem GridReader_not_multiple_of_3_witness:
  "\<not> 3 dvd array_size (Arr1 [1, 0, 0, 2]) \<and>
   read_and_generate_Gvector_magnitudes (Arr1 [1, 0, 0, 2]) = Inl ValueError_reshape"
proof -
  have "array_size (Arr1 [1, 0, 0, 2]) = 4" by (simp add: array_size_def)
  then have h: "\<not> 3 dvd array_size (Arr1 [1, 0, 0, 2])" by simp
  have "read_and_generate_Gvector_magnitudes (Arr1 [1, 0, 0, 2]) \<noteq> Inl IndexError_shape"
    by (simp add: read_and_generate_Gvector_magnitudes_def reshape_3_def array_size_def)
  with GridReader_not_multiple_of_3 [OF h] h show ?thesis by simp
qed

subsection \<open>ResidualSelector\<close>

text \<open>The definitions of the grouping, for evaluating it on a given table.\<close>

lemmas eval_defs = average_SF_def groupby_mean_def groupby_sem_def groupby_G_def mean_def

lemma G_groupby_mean: "map G (groupby_mean df) = sort (remdups (map G df))"
  by (simp add: groupby_mean_def groupby_G_def comp_def)

lemma S_G_groupby_mean:
  "map S_G (groupby_mean df) =
   map (\<lambda>k. mean (map S_G (filter (\<lambda>r. G r = k) df))) (sort (remdups (map G df)))"
  by (simp add: groupby_mean_def groupby_G_def comp_def)

lemma residuals_Inr:
  "\<forall>SFi\<in>set raw_SF. map G (groupby_mean SFi) = map G SF \<Longrightarrow>
   residuals raw_SF SF =
     Inr (map (\<lambda>SFi. residual (map S_G SF) (map S_G (groupby_mean SFi))) raw_SF)"
  by (induction raw_SF) (simp_all add: Let_def)

lemma residuals_Inl:
  "SFi \<in> set raw_SF \<Longrightarrow> map G (groupby_mean SFi) \<noteq> map G SF \<Longrightarrow>
   residuals raw_SF SF = Inl ValueError_G_arrays"
proof (induction raw_SF)
  case Nil
  then show ?case by simp
next
  case (Cons a raw_SF)
  show ?case
  proof (cases "map G (groupby_mean a) = map G SF")
    case True
    with Cons.prems have "SFi \<in> set raw_SF" by auto
    from Cons.IH [OF this Cons.prems(2)] True show ?thesis by (simp add: Let_def)
  next
    case False
    then show ?thesis by (simp add: Let_def)
  qed
qed

text \<open>On a run that passes the check, the script's residual is the specification's.\<close>

lemma residual_Residual:
  assumes "map G (groupby_mean SFi) = map G SF"
  shows "residual (map S_G SF) (map S_G (groupby_mean SFi)) = Residual SF SFi"
proof -
  have k: "sort (remdups (map G SFi)) = map G SF"
    using assms by (simp add: G_groupby_mean)
  have "map S_G (groupby_mean SFi) = map (\<lambda>row. structure_factor_run SFi (G row)) SF"
    by (simp add: S_G_groupby_mean k structure_factor_run_def comp_def)
  then have "zip (map S_G SF) (map S_G (groupby_mean SFi)) =
             map (\<lambda>row. (S_G row, structure_factor_run SFi (G row))) SF"
    by (simp add: zip_map_map zip_same_conv_map comp_def)
  then show ?thesis
    by (simp add: residual_def Residual_def comp_def)
qed

text \<open>
  The scan returns the first index of a smallest element. The invariant: \<open>pre\<close> is the
  part of the list already seen, \<open>bv\<close> its smallest element and \<open>bi\<close> the first index
  where it occurs.
\<close>

lemma argmin_scan_first_min:
  assumes "length pre = i" and "bi < i" and "pre ! bi = bv"
    and "\<forall>j<i. bv \<le> pre ! j" and "\<forall>j<bi. bv < pre ! j"
  shows "argmin_scan bi bv i xs < length (pre @ xs) \<and>
         (\<forall>j<length (pre @ xs). (pre @ xs) ! argmin_scan bi bv i xs \<le> (pre @ xs) ! j) \<and>
         (\<forall>j<argmin_scan bi bv i xs. (pre @ xs) ! argmin_scan bi bv i xs < (pre @ xs) ! j)"
  using assms
proof (induction xs arbitrary: pre i bi bv)
  case Nil
  then show ?case by simp
next
  case (Cons x xs)
  let ?pre = "pre @ [x]"
  have len: "length ?pre = Suc i" using Cons.prems(1) by simp
  show ?case
  proof (cases "x < bv")
    case True
    have a: "i < Suc i" by simp
    have b: "?pre ! i = x" using Cons.prems(1) by (auto simp: nth_append)
    have c: "\<forall>j<Suc i. x \<le> ?pre ! j"
      using Cons.prems(1,4) True by (auto simp: nth_append less_Suc_eq)
    have d: "\<forall>j<i. x < ?pre ! j"
      using Cons.prems(1,4) True by (auto simp: nth_append)
    from Cons.IH [OF len a b c d] True show ?thesis by simp
  next
    case False
    have a: "bi < Suc i" using Cons.prems(2) by simp
    have b: "?pre ! bi = bv" using Cons.prems(1,2,3) by (simp add: nth_append)
    have c: "\<forall>j<Suc i. bv \<le> ?pre ! j"
      using Cons.prems(1,4) False by (auto simp: nth_append less_Suc_eq)
    have d: "\<forall>j<bi. bv < ?pre ! j"
      using Cons.prems(1,2,5) by (auto simp: nth_append)
    from Cons.IH [OF len a b c d] False show ?thesis by simp
  qed
qed

lemma argmin_first_min:
  assumes "xs \<noteq> []"
  shows "\<exists>i<length xs. argmin xs = Inr i \<and>
           (\<forall>j<length xs. xs ! i \<le> xs ! j) \<and> (\<forall>j<i. xs ! i < xs ! j)"
proof -
  from assms obtain x rest where xs: "xs = x # rest" by (cases xs) auto
  have "argmin_scan 0 x 1 rest < length ([x] @ rest) \<and>
         (\<forall>j<length ([x] @ rest). ([x] @ rest) ! argmin_scan 0 x 1 rest \<le> ([x] @ rest) ! j) \<and>
         (\<forall>j<argmin_scan 0 x 1 rest. ([x] @ rest) ! argmin_scan 0 x 1 rest < ([x] @ rest) ! j)"
    by (rule argmin_scan_first_min) simp_all
  then show ?thesis by (simp add: xs argmin_def)
qed

text \<open>
  Claim C1. For every non-empty list of runs whose grouped magnitude sequences all equal
  the magnitude sequence of the average table, the selector returns a run index \<open>i\<close>
  (counted from 0) whose residual, as the specification defines it, is minimal; every
  run before \<open>i\<close> has a strictly larger residual, so \<open>i\<close> is the lowest index of a
  minimal residual.
\<close>

theorem selector_minimal_first:
  assumes "raw_SF \<noteq> []"
    and "\<forall>SFi\<in>set raw_SF. map G (groupby_mean SFi) = map G SF"
  shows "\<exists>i<length raw_SF. find_special_twist_angle raw_SF SF = Inr i \<and>
           (\<forall>j<length raw_SF. Residual SF (raw_SF ! i) \<le> Residual SF (raw_SF ! j)) \<and>
           (\<forall>j<i. Residual SF (raw_SF ! i) < Residual SF (raw_SF ! j))"
proof -
  let ?rs = "map (Residual SF) raw_SF"
  have "map (\<lambda>SFi. residual (map S_G SF) (map S_G (groupby_mean SFi))) raw_SF = ?rs"
    using assms(2) by (simp add: residual_Residual)
  with residuals_Inr [OF assms(2)] have r: "residuals raw_SF SF = Inr ?rs" by simp
  from assms(1) have "?rs \<noteq> []" by simp
  from argmin_first_min [OF this] obtain i where
    i: "i < length raw_SF" "argmin ?rs = Inr i"
       "\<forall>j<length raw_SF. ?rs ! i \<le> ?rs ! j" "\<forall>j<i. ?rs ! i < ?rs ! j"
    by auto
  have "find_special_twist_angle raw_SF SF = Inr i"
    using r i(2) by (simp add: find_special_twist_angle_def)
  moreover have "\<forall>j<length raw_SF. Residual SF (raw_SF ! i) \<le> Residual SF (raw_SF ! j)"
    using i(1,3) by simp
  moreover have "\<forall>j<i. Residual SF (raw_SF ! i) < Residual SF (raw_SF ! j)"
    using i(1,4) by simp
  ultimately show ?thesis using i(1) by blast
qed

text \<open>
  Of three runs where the first and the third have the same, minimal residual 500 and
  the second the residual 2000, the first is selected.
\<close>

theorem selector_minimal_first_witness:
  "three_runs \<noteq> [] \<and>
   map G (groupby_mean (three_runs ! 0)) = map G (average_SF three_runs) \<and>
   map G (groupby_mean (three_runs ! 1)) = map G (average_SF three_runs) \<and>
   map G (groupby_mean (three_runs ! 2)) = map G (average_SF three_runs) \<and>
   Residual (average_SF three_runs) (three_runs ! 0) = 500 \<and>
   Residual (average_SF three_runs) (three_runs ! 1) = 2000 \<and>
   Residual (average_SF three_runs) (three_runs ! 2) = 500 \<and>
   find_special_twist_angle three_runs (average_SF three_runs) = Inr 0"
proof -
  have h1: "three_runs \<noteq> []" by (simp add: three_runs_def)
  have g: "map G (average_SF three_runs) = [1, 2]"
    by (simp add: three_runs_def eval_defs)
  have s: "map S_G (average_SF three_runs) = [20, 40]"
    by (simp add: three_runs_def eval_defs)
  have k: "map G (groupby_mean (three_runs ! 0)) = [1, 2]"
      "map G (groupby_mean (three_runs ! 1)) = [1, 2]"
      "map G (groupby_mean (three_runs ! 2)) = [1, 2]"
    by (simp_all add: three_runs_def eval_defs)
  have h2: "\<forall>SFi\<in>set three_runs. map G (groupby_mean SFi) = map G (average_SF three_runs)"
    unfolding g by (simp add: three_runs_def eval_defs)
  have R: "Residual SF SFi =
           (\<Sum>(a, k)\<leftarrow>zip (map S_G SF) (map G SF). (a - structure_factor_run SFi k)\<^sup>2)"
    for SF :: "AverageRow list" and SFi
    by (simp add: Residual_def zip_map_map zip_same_conv_map comp_def)
  have r: "Residual (average_SF three_runs) (three_runs ! 0) = 500"
      "Residual (average_SF three_runs) (three_runs ! 1) = 2000"
      "Residual (average_SF three_runs) (three_runs ! 2) = 500"
    unfolding R g s by (simp_all add: three_runs_def structure_factor_run_def mean_def)
  from selector_minimal_first [OF h1 h2] obtain i where
    i: "i < length three_runs"
       "find_special_twist_angle three_runs (average_SF three_runs) = Inr i"
       "\<forall>j<length three_runs.
          Residual (average_SF three_runs) (three_runs ! i)
            \<le> Residual (average_SF three_runs) (three_runs ! j)"
       "\<forall>j<i. Residual (average_SF three_runs) (three_runs ! i)
            < Residual (average_SF three_runs) (three_runs ! j)"
    by blast
  have l: "length three_runs = 3" by (simp add: three_runs_def)
  from i(1) l have "i = 0 \<or> i = 1 \<or> i = 2" by auto
  then have "i = 0"
  proof (elim disjE)
    assume "i = 1"
    with i(3) l have "Residual (average_SF three_runs) (three_runs ! 1)
            \<le> Residual (average_SF three_runs) (three_runs ! 0)" by simp
    with r show ?thesis by simp
  next
    assume "i = 2"
    with i(4) have "Residual (average_SF three_runs) (three_runs ! 2)
            < Residual (average_SF three_runs) (three_runs ! 0)" by simp
    with r show ?thesis by simp
  qed
  with i(2) h1 g k r show ?thesis by simp
qed

text \<open>
  Claim C3. For every run whose grouped sequence of magnitudes is not equal to the
  magnitude sequence of the average table, the selector raises its ValueError (the
  specification's InconsistentGridError): no run index is returned.
\<close>

theorem selector_grid_mismatch:
  assumes "SFi \<in> set raw_SF" and "map G (groupby_mean SFi) \<noteq> map G SF"
  shows "find_special_twist_angle raw_SF SF = Inl ValueError_G_arrays"
  using residuals_Inl [OF assms] by (simp add: find_special_twist_angle_def)

text \<open>
  When a run on a finer grid is added to the three runs, the average table has the
  magnitudes \<open>1, 3/2, 2\<close>; the first run has only \<open>1, 2\<close>, and the selector raises.
\<close>

theorem selector_grid_mismatch_witness:
  "three_runs ! 0 \<in> set (three_runs @ [finer_run]) \<and>
   map G (groupby_mean (three_runs ! 0)) = [1, 2] \<and>
   map G (average_SF (three_runs @ [finer_run])) = [1, 3 / 2, 2] \<and>
   find_special_twist_angle (three_runs @ [finer_run]) (average_SF (three_runs @ [finer_run]))
     = Inl ValueError_G_arrays"
proof -
  have h1: "three_runs ! 0 \<in> set (three_runs @ [finer_run])"
    by (simp add: three_runs_def)
  have k: "map G (groupby_mean (three_runs ! 0)) = [1, 2]"
    by (simp add: three_runs_def eval_defs)
  have g: "map G (average_SF (three_runs @ [finer_run])) = [1, 3 / 2, 2]"
    by (simp add: three_runs_def finer_run_def eval_defs)
  have h2: "map G (groupby_mean (three_runs ! 0))
              \<noteq> map G (average_SF (three_runs @ [finer_run]))"
    unfolding k g by simp
  from selector_grid_mismatch [OF h1 h2] h1 k g show ?thesis by simp
qed


subsection \<open>The selection and the Coulomb potential\<close>

lemma G_of_G_S_G: "map G df = map fst (G_S_G df)"
  by (simp add: G_S_G_def comp_def)

lemma S_G_group_of_G_S_G:
  "map S_G (filter (\<lambda>r. G r = k) df) = map snd (filter (\<lambda>p. fst p = k) (G_S_G df))"
  by (simp add: G_S_G_def filter_map comp_def)

lemma groupby_mean_G_S_G:
  assumes "G_S_G df = G_S_G df'"
  shows "map G (groupby_mean df) = map G (groupby_mean df')"
    and "map S_G (groupby_mean df) = map S_G (groupby_mean df')"
proof -
  from assms have g: "map G df = map G df'"
    by (simp add: G_of_G_S_G)
  from assms have s: "map S_G (filter (\<lambda>r. G r = k) df) = map S_G (filter (\<lambda>r. G r = k) df')" for k
    by (simp add: S_G_group_of_G_S_G)
  show "map G (groupby_mean df) = map G (groupby_mean df')"
    by (simp add: G_groupby_mean g)
  show "map S_G (groupby_mean df) = map S_G (groupby_mean df')"
    by (simp add: S_G_groupby_mean g s)
qed

lemma G_average_SF: "map G (average_SF raw_SF) = map G (groupby_mean (concat raw_SF))"
  by (simp add: average_SF_def groupby_mean_def groupby_sem_def groupby_G_def
      zip_map_map zip_same_conv_map comp_def Let_def)

lemma S_G_average_SF: "map S_G (average_SF raw_SF) = map S_G (groupby_mean (concat raw_SF))"
  by (simp add: average_SF_def groupby_mean_def groupby_sem_def groupby_G_def
      zip_map_map zip_same_conv_map comp_def Let_def)

lemma G_S_G_concat:
  "list_all2 (\<lambda>df df'. G_S_G df = G_S_G df') raw raw' \<Longrightarrow>
   G_S_G (concat raw) = G_S_G (concat raw')"
  by (induction raw raw' rule: list_all2_induct) (simp_all add: G_S_G_def)

lemma residuals_G_S_G:
  assumes "list_all2 (\<lambda>df df'. G_S_G df = G_S_G df') raw raw'"
    and "map G SF = map G SF'" and "map S_G SF = map S_G SF'"
  shows "residuals raw SF = residuals raw' SF'"
  using assms(1)
proof (induction raw raw' rule: list_all2_induct)
  case Nil
  then show ?case by simp
next
  case (Cons df raw df' raw')
  have "map G (groupby_mean df) = map G (groupby_mean df')"
    and "map S_G (groupby_mean df) = map S_G (groupby_mean df')"
    by (rule groupby_mean_G_S_G [OF Cons.hyps(1)])+
  then show ?case
    by (simp add: Let_def Cons.IH assms(2,3) split: sum.splits)
qed

lemma length_column: "\<not> ndim2 a \<Longrightarrow> fits n a \<Longrightarrow> length (column n a) = n"
  by (cases a) simp_all

lemma G_S_G_new_DataFrame:
  assumes "new_DataFrame g v s = Inr df"
  shows "G_S_G df = zip g (column (length g) s)"
proof -
  from assms have nd: "\<not> ndim2 v" "\<not> ndim2 s" and ft: "fits (length g) v" "fits (length g) s"
    and df: "df = map (\<lambda>(a, b, c). \<lparr>G = a, V_G = b, S_G = c\<rparr>)
                  (zip g (zip (column (length g) v) (column (length g) s)))"
    by (auto simp: new_DataFrame_def split: if_splits)
  have l: "length (column (length g) v) = length g" "length (column (length g) s) = length g"
    using nd ft by (simp_all add: length_column)
  have "map (\<lambda>r. (G r, S_G r)) (map (\<lambda>(a, b, c). \<lparr>G = a, V_G = b, S_G = c\<rparr>) (zip xs (zip ys zs)))
        = zip xs zs"
    if "length ys = length xs" "length zs = length xs" for xs ys zs :: "real list"
    using that
  proof (induction xs arbitrary: ys zs)
    case Nil
    then show ?case by simp
  next
    case (Cons x xs)
    then show ?case by (cases ys; cases zs) simp_all
  qed
  from this [OF l] show ?thesis by (simp add: df G_S_G_def)
qed

lemma same_shape_checks:
  "same_shape v v' \<Longrightarrow> ndim2 v = ndim2 v' \<and> fits n v = fits n v'"
  by (cases v; cases v') simp_all

lemma load_run_same_shape:
  assumes "same_shape v v'"
  shows "rel_sum (=) (\<lambda>df df'. G_S_G df = G_S_G df') (load_run (g, v, s)) (load_run (g, v', s))"
proof (cases "read_and_generate_Gvector_magnitudes g")
  case (Inl e)
  then show ?thesis by (simp add: load_run_def)
next
  case (Inr mags)
  let ?g = "map round10 mags"
  from same_shape_checks [OF assms]
  have c: "ndim2 v = ndim2 v'" "fits (length ?g) v = fits (length ?g) v'" by simp_all
  show ?thesis
  proof (cases "new_DataFrame ?g v s")
    case (Inl e)
    then have "new_DataFrame ?g v' s = Inl e"
      using c by (auto simp: new_DataFrame_def split: if_splits)
    with Inl Inr show ?thesis by (simp add: load_run_def)
  next
    case r: (Inr df)
    then obtain df' where r': "new_DataFrame ?g v' s = Inr df'"
      using c by (auto simp: new_DataFrame_def split: if_splits)
    from G_S_G_new_DataFrame [OF r] G_S_G_new_DataFrame [OF r']
    have "G_S_G df = G_S_G df'" by simp
    with r r' Inr show ?thesis by (simp add: load_run_def)
  qed
qed

lemma load_runs_same:
  "list_all2 same_G_S runs runs' \<Longrightarrow>
   rel_sum (=) (list_all2 (\<lambda>df df'. G_S_G df = G_S_G df')) (load_runs runs) (load_runs runs')"
proof (induction runs runs' rule: list_all2_induct)
  case Nil
  then show ?case by simp
next
  case (Cons r runs r' runs')
  obtain g v s where r: "r = (g, v, s)" by (cases r)
  obtain g' v' s' where r': "r' = (g', v', s')" by (cases r')
  from Cons.hyps(1) r r' have e: "g' = g" "s' = s" "same_shape v v'"
    by (simp_all add: same_G_S_def)
  from load_run_same_shape [OF e(3), of g s] Cons.IH
  show ?case
    by (cases "load_run (g, v, s)"; cases "load_run (g, v', s)";
        cases "load_runs runs"; cases "load_runs runs'") (simp_all add: r r' e)
qed

text \<open>
  Claim C9. The selected run index depends only on the grid vectors and the structure
  factors: two lists of runs with the same grid and structure-factor files, whose
  potential files have the same shapes and any values, give the same result of the
  pipeline (the same index, or the same error).
\<close>

theorem selection_ignores_potential:
  assumes "list_all2 same_G_S runs runs'"
  shows "main runs = main runs'"
proof (cases "load_runs runs")
  case (Inl e)
  with load_runs_same [OF assms] have "load_runs runs' = Inl e"
    by (cases "load_runs runs'") simp_all
  with Inl show ?thesis by (simp add: main_def read_and_average_SF_def)
next
  case (Inr raw)
  with load_runs_same [OF assms] obtain raw' where
    r': "load_runs runs' = Inr raw'" and a: "list_all2 (\<lambda>df df'. G_S_G df = G_S_G df') raw raw'"
    by (cases "load_runs runs'") simp_all
  from a have n: "raw = [] \<longleftrightarrow> raw' = []" by (cases raw; cases raw') simp_all
  from groupby_mean_G_S_G [OF G_S_G_concat [OF a]]
  have "map G (average_SF raw) = map G (average_SF raw')"
    and "map S_G (average_SF raw) = map S_G (average_SF raw')"
    by (simp_all add: G_average_SF S_G_average_SF)
  from residuals_G_S_G [OF a this]
  have "find_special_twist_angle raw (average_SF raw) = find_special_twist_angle raw' (average_SF raw')"
    by (simp add: find_special_twist_angle_def)
  with Inr r' n show ?thesis by (simp add: main_def read_and_average_SF_def)
qed

lemma load_directory:
  "load_run (directory (Arr1 [a, b]) (Arr1 [c, d]))
     = Inr [\<lparr>G = 1, V_G = a, S_G = c\<rparr>, \<lparr>G = 2, V_G = b, S_G = d\<rparr>]"
  using real_sqrt_abs [of 2]
  by (simp add: directory_def load_run_def read_and_generate_Gvector_magnitudes_def
      reshape_3_def array_size_def magnitude_def new_DataFrame_def round10_def rint_def)

lemma main_two_directories:
  "main [directory (Arr1 [a, b]) (Arr1 [10, 20]), directory (Arr1 [c, d]) (Arr1 [40, 80])]
     = Inr 0"
  by (simp add: main_def read_and_average_SF_def load_directory find_special_twist_angle_def
      argmin_def Let_def G_average_SF S_G_average_SF G_groupby_mean S_G_groupby_mean
      residual_def mean_def)

theorem selection_ignores_potential_witness:
  "list_all2 same_G_S
     [directory (Arr1 [5, 6]) (Arr1 [10, 20]), directory (Arr1 [5, 6]) (Arr1 [40, 80])]
     [directory (Arr1 [7, 8]) (Arr1 [10, 20]), directory (Arr1 [0, 1]) (Arr1 [40, 80])] \<and>
   main [directory (Arr1 [5, 6]) (Arr1 [10, 20]), directory (Arr1 [5, 6]) (Arr1 [40, 80])]
     = Inr 0 \<and>
   main [directory (Arr1 [7, 8]) (Arr1 [10, 20]), directory (Arr1 [0, 1]) (Arr1 [40, 80])]
     = Inr 0"
proof -
  have h: "list_all2 same_G_S
     [directory (Arr1 [5, 6]) (Arr1 [10, 20]), directory (Arr1 [5, 6]) (Arr1 [40, 80])]
     [directory (Arr1 [7, 8]) (Arr1 [10, 20]), directory (Arr1 [0, 1]) (Arr1 [40, 80])]"
    by (simp add: same_G_S_def directory_def)
  from selection_ignores_potential [OF h] h main_two_directories [of 5 6 5 6]
  show ?thesis by simp
qed

subsection \<open>Averager\<close>

text \<open>The rows of the average table, one per key of the grouping, in the order of the keys.\<close>

lemma average_SF_rows:
  "average_SF raw_SF =
     map (\<lambda>k. \<lparr>G = k,
                V_G = mean (map V_G (filter (\<lambda>r. G r = k) (concat raw_SF))),
                S_G = mean (map S_G (filter (\<lambda>r. G r = k) (concat raw_SF))),
                G_error = Some k,
                V_G_error = sem (map V_G (filter (\<lambda>r. G r = k) (concat raw_SF))),
                S_G_error = sem (map S_G (filter (\<lambda>r. G r = k) (concat raw_SF)))\<rparr>)
       (sort (remdups (map G (concat raw_SF))))"
  by (simp add: average_SF_def groupby_mean_def groupby_sem_def groupby_G_def Let_def
      zip_map_map zip_same_conv_map comp_def)

text \<open>
  One row per distinct magnitude of the runs, in strictly ascending order of the
  magnitude.
\<close>

lemma average_SF_ascending:
  "sorted_wrt (<) (map G (average_SF raw_SF))"
  and "set (map G (average_SF raw_SF)) = G ` set (concat raw_SF)"
  by (simp_all add: G_average_SF G_groupby_mean strict_sorted_iff)

text \<open>No group is empty, and the standard error is NaN exactly for a group of one row.\<close>

lemma group_not_empty:
  "k \<in> set (map G (average_SF raw_SF)) \<Longrightarrow> filter (\<lambda>r. G r = k) (concat raw_SF) \<noteq> []"
  by (auto simp: G_average_SF G_groupby_mean filter_empty_conv)

lemma sem_None_iff: "sem xs = None \<longleftrightarrow> length xs \<le> 1"
  by (simp add: sem_def Let_def)

text \<open>The standard error of two values is half their distance.\<close>

lemma sem2: "sem [a, b] = Some (\<bar>a - b\<bar> / 2)"
proof -
  let ?X = "(a - (a + b) / 2)\<^sup>2 + (b - (a + b) / 2)\<^sup>2"
  have 1: "sqrt ?X / sqrt 2 = sqrt (?X / 2)"
    by (simp only: real_sqrt_divide)
  have 2: "?X / 2 = ((a - b) / 2)\<^sup>2"
    by (simp add: power2_eq_square field_simps)
  have "sqrt ?X / sqrt 2 = \<bar>(a - b) / 2\<bar>"
    unfolding 1 2 by (rule real_sqrt_abs)
  then show ?thesis by (simp add: sem_def mean_def numeral_2_eq_2)
qed

text \<open>
  Claim C2. The claim asks, in each row of the average table, for the standard error of
  the mean of the magnitudes of the group, NaN for a group of one row. The script
  stores in \<^verbatim>\<open>G_error\<close> the column \<^verbatim>\<open>G\<close> of \<^verbatim>\<open>group.sem()\<close>, which is the key of the
  group. For the two runs on the magnitudes 1 and 2, \<^verbatim>\<open>G_error\<close> is \<open>[1, 2]\<close>, where the
  standard error of the magnitudes of each group is 0; for one run of one row of
  magnitude 1 it is 1, where the standard error is NaN. The other columns are as the
  claim says (\<open>average_SF_rows\<close>, \<open>average_SF_ascending\<close>): here the means of the
  structure factor are \<open>[20, 30]\<close> and their standard errors \<open>[10, 10]\<close>.
\<close>

theorem Averager_G_error_holds_key:
  "map G_error (average_SF two_runs) = [Some 1, Some 2] \<and>
   map (\<lambda>(k, rows). sem (map G rows)) (groupby_G (concat two_runs)) = [Some 0, Some 0] \<and>
   map S_G (average_SF two_runs) = [20, 30] \<and>
   map S_G_error (average_SF two_runs) = [Some 10, Some 10] \<and>
   map G_error (average_SF [[\<lparr>G = 1, V_G = 5, S_G = 10\<rparr>]]) = [Some 1] \<and>
   sem (map G [\<lparr>G = 1, V_G = 5, S_G = 10\<rparr>]) = None \<and>
   map S_G_error (average_SF [[\<lparr>G = 1, V_G = 5, S_G = 10\<rparr>]]) = [None]"
proof -
  have "map G_error (average_SF two_runs) = [Some 1, Some 2]"
    by (simp add: average_SF_rows two_runs_def)
  moreover have "map (\<lambda>(k, rows). sem (map G rows)) (groupby_G (concat two_runs))
      = [Some 0, Some 0]"
    by (simp add: two_runs_def groupby_G_def sem2)
  moreover have "map S_G (average_SF two_runs) = [20, 30]"
    by (simp add: average_SF_rows two_runs_def mean_def)
  moreover have "map S_G_error (average_SF two_runs) = [Some 10, Some 10]"
    by (simp add: average_SF_rows two_runs_def sem2)
  moreover have "map G_error (average_SF [[\<lparr>G = 1, V_G = 5, S_G = 10\<rparr>]]) = [Some 1]"
    by (simp add: average_SF_rows)
  moreover have "sem (map G [\<lparr>G = 1, V_G = 5, S_G = 10\<rparr>]) = None"
    by (simp add: sem_def)
  moreover have "map S_G_error (average_SF [[\<lparr>G = 1, V_G = 5, S_G = 10\<rparr>]]) = [None]"
    by (simp add: average_SF_rows sem_def)
  ultimately show ?thesis by simp
qed









subsection \<open>A single run\<close>

text \<open>
  Claim C10. For every invocation with exactly one run (whose three files load into a
  table), the pipeline passes the comparison of the magnitude sequences, the residual
  of the run is 0, and the selected index is 0.
\<close>

theorem single_run_selected:
  assumes "load_run files = Inr SFi"
  shows "read_and_average_SF [files] = Inr ([SFi], average_SF [SFi]) \<and>
         residuals [SFi] (average_SF [SFi]) = Inr [0] \<and>
         main [files] = Inr 0"
proof -
  have a: "read_and_average_SF [files] = Inr ([SFi], average_SF [SFi])"
    using assms by (simp add: read_and_average_SF_def)
  have z: "residual xs xs = 0" for xs
    by (induction xs) (simp_all add: residual_def)
  have r: "residuals [SFi] (average_SF [SFi]) = Inr [0]"
    by (simp add: G_average_SF S_G_average_SF z Let_def)
  then have "find_special_twist_angle [SFi] (average_SF [SFi]) = Inr 0"
    by (simp add: find_special_twist_angle_def argmin_def)
  with a r show ?thesis by (simp add: main_def)
qed

theorem single_run_selected_witness:
  "load_run (directory (Arr1 [5, 6]) (Arr1 [10, 20]))
     = Inr [\<lparr>G = 1, V_G = 5, S_G = 10\<rparr>, \<lparr>G = 2, V_G = 6, S_G = 20\<rparr>] \<and>
   residuals [[\<lparr>G = 1, V_G = 5, S_G = 10\<rparr>, \<lparr>G = 2, V_G = 6, S_G = 20\<rparr>]]
     (average_SF [[\<lparr>G = 1, V_G = 5, S_G = 10\<rparr>, \<lparr>G = 2, V_G = 6, S_G = 20\<rparr>]]) = Inr [0] \<and>
   main [directory (Arr1 [5, 6]) (Arr1 [10, 20])] = Inr 0"
  using single_run_selected [OF load_directory [of 5 6 10 20]] load_directory [of 5 6 10 20]
  by simp

subsection \<open>RunLoader\<close>

text \<open>
  Claim C5, as amended. For every run whose potential and structure-factor files are
  not files of exactly one number, and whose three parsed sequences do not all have the
  same length, loading fails with a ValueError of the table constructor.
\<close>

theorem RunLoader_length_mismatch:
  assumes "read_and_generate_Gvector_magnitudes g = Inr mags"
    and "\<not> ndim0 v" and "\<not> ndim0 s"
    and "\<not> (array_size v = length mags \<and> array_size s = length mags)"
  shows "load_run (g, v, s) = Inl ValueError_ndim \<or> load_run (g, v, s) = Inl ValueError_lengths"
proof -
  have "new_DataFrame (map round10 mags) v s = Inl ValueError_ndim \<or>
        new_DataFrame (map round10 mags) v s = Inl ValueError_lengths"
    using assms(2-4)
    by (cases v; cases s) (auto simp: new_DataFrame_def array_size_def)
  with assms(1) show ?thesis by (simp add: load_run_def)
qed

theorem RunLoader_length_mismatch_witness:
  "read_and_generate_Gvector_magnitudes (Arr1 [1, 0, 0, 0, 2, 0]) = Inr [1, 2] \<and>
   \<not> ndim0 (Arr1 [5, 6, 7]) \<and> \<not> ndim0 (Arr1 [10, 20]) \<and>
   array_size (Arr1 [5, 6, 7]) = 3 \<and> length [1, 2 :: real] = 2 \<and>
   load_run (Arr1 [1, 0, 0, 0, 2, 0], Arr1 [5, 6, 7], Arr1 [10, 20]) = Inl ValueError_lengths"
proof -
  have h1: "read_and_generate_Gvector_magnitudes (Arr1 [1, 0, 0, 0, 2, 0]) = Inr [1, 2]"
    using real_sqrt_abs [of 2]
    by (simp add: read_and_generate_Gvector_magnitudes_def reshape_3_def array_size_def
        magnitude_def)
  have h2: "\<not> ndim0 (Arr1 [5, 6, 7])" and h3: "\<not> ndim0 (Arr1 [10, 20])" by simp_all
  have sz: "array_size (Arr1 [5, 6, 7]) = 3" by (simp add: array_size_def)
  then have h4: "\<not> (array_size (Arr1 [5, 6, 7]) = length [1, 2 :: real] \<and>
                  array_size (Arr1 [10, 20]) = length [1, 2 :: real])" by simp
  have "load_run (Arr1 [1, 0, 0, 0, 2, 0], Arr1 [5, 6, 7], Arr1 [10, 20]) \<noteq> Inl ValueError_ndim"
    by (simp add: load_run_def h1 new_DataFrame_def)
  with RunLoader_length_mismatch [OF h1 h2 h3 h4] h1 sz show ?thesis by simp
qed

text \<open>
  Claim C5 as stated fails: with two grid vectors, a potential file of one number and a
  structure-factor file of two numbers, the three sequences have the lengths 2, 1 and 2,
  and the run is loaded, the one potential repeated on both rows.
\<close>

theorem RunLoader_scalar_broadcast_counterexample:
  "read_and_generate_Gvector_magnitudes (Arr1 [1, 0, 0, 0, 2, 0]) = Inr [1, 2] \<and>
   array_size (Arr0 5) = 1 \<and> array_size (Arr1 [10, 20]) = 2 \<and>
   load_run (Arr1 [1, 0, 0, 0, 2, 0], Arr0 5, Arr1 [10, 20])
     = Inr [\<lparr>G = 1, V_G = 5, S_G = 10\<rparr>, \<lparr>G = 2, V_G = 5, S_G = 20\<rparr>]"
  using real_sqrt_abs [of 2]
  by (simp add: load_run_def read_and_generate_Gvector_magnitudes_def reshape_3_def
      array_size_def magnitude_def new_DataFrame_def round10_def rint_def numeral_2_eq_2)

subsection \<open>Exporter\<close>

lemma contains_iff: "contains sub s \<longleftrightarrow> (\<exists>p q. s = p @ sub @ q)"
proof (induction s)
  case Nil
  then show ?case by auto
next
  case (Cons c cs)
  have IH: "contains sub cs \<longleftrightarrow> (\<exists>p q. cs = p @ sub @ q)" by (rule Cons.IH)
  show ?case
  proof
    assume "contains sub (c # cs)"
    then consider "prefix sub (c # cs)" | "contains sub cs" by auto
    then show "\<exists>p q. c # cs = p @ sub @ q"
    proof cases
      case 1
      then obtain q where "c # cs = sub @ q" by (auto simp: prefix_def)
      then have "c # cs = [] @ sub @ q" by simp
      then show ?thesis by blast
    next
      case 2
      with IH obtain p q where "cs = p @ sub @ q" by blast
      then have "c # cs = (c # p) @ sub @ q" by simp
      then show ?thesis by blast
    qed
  next
    assume "\<exists>p q. c # cs = p @ sub @ q"
    then obtain p q where pq: "c # cs = p @ sub @ q" by blast
    show "contains sub (c # cs)"
    proof (cases p)
      case Nil
      with pq have "prefix sub (c # cs)" by (simp add: prefix_def)
      then show ?thesis by simp
    next
      case (Cons a p')
      with pq have "cs = p' @ sub @ q" by simp
      with IH have "contains sub cs" by blast
      then show ?thesis by simp
    qed
  qed
qed

text \<open>
  Claim C8, as amended. For every base name given to \<^verbatim>\<open>--write\<close>, the exporter appends
  \<^verbatim>\<open>.csv\<close> if and only if the name does not contain \<^verbatim>\<open>.csv\<close> anywhere: the main output
  file is the name itself when \<^verbatim>\<open>.csv\<close> occurs in it, and the name with \<^verbatim>\<open>.csv\<close>
  appended otherwise.
\<close>

theorem csv_appended_unless_contained:
  "((\<exists>p q. name = p @ ''.csv'' @ q) \<longrightarrow> write_sfTA_csv_file name = name) \<and>
   (\<not> (\<exists>p q. name = p @ ''.csv'' @ q) \<longrightarrow> write_sfTA_csv_file name = name @ ''.csv'')"
  by (simp add: write_sfTA_csv_file_def contains_iff)

theorem csv_appended_unless_contained_witness:
  "''sf.csv'' = ''sf'' @ ''.csv'' @ [] \<and> write_sfTA_csv_file ''sf.csv'' = ''sf.csv'' \<and>
   write_sfTA_csv_file ''sf'' = ''sf.csv''"
proof -
  have h: "\<exists>p q. ''sf.csv'' = p @ ''.csv'' @ q"
  proof (intro exI)
    show "''sf.csv'' = ''sf'' @ ''.csv'' @ []" by simp
  qed
  have h': "\<not> (\<exists>p q. ''sf'' = p @ ''.csv'' @ q)"
    by (simp add: contains_iff [symmetric])
  from csv_appended_unless_contained [of "''sf.csv''"] h
  have a: "write_sfTA_csv_file ''sf.csv'' = ''sf.csv''" by blast
  from csv_appended_unless_contained [of "''sf''"] h'
  have b: "write_sfTA_csv_file ''sf'' = ''sf'' @ ''.csv''" by blast
  from a b show ?thesis by simp
qed

text \<open>
  Claim C8 as stated fails: the name \<^verbatim>\<open>out.csv.bak\<close> does not end in \<^verbatim>\<open>.csv\<close>, and
  nothing is appended to it.
\<close>

theorem csv_not_a_suffix_counterexample:
  "\<not> suffix ''.csv'' ''out.csv.bak'' \<and>
   write_sfTA_csv_file ''out.csv.bak'' = ''out.csv.bak''"
  by (simp add: write_sfTA_csv_file_def suffix_def)

end
